theory Spec2Isabelle
  imports Complex_Main "HOL-Library.Word"
begin

unbundle bit_operations_syntax

section \<open>Machine types\<close>

text \<open>
  The two headers under verification are \<^verbatim>\<open>include/c3d/light.h\<close> and
  \<^verbatim>\<open>include/c3d/lightlut.h\<close>. C's \<^verbatim>\<open>u32\<close> and \<^verbatim>\<open>u16\<close> are words of that width.
  A colour component is a \<^verbatim>\<open>float\<close> that the code under verification only stores
  and reads back, never computes with: \<open>float\<close> stands for such a stored value. The
  arithmetic of lightlut.h is modelled on binary32 numbers (\<open>float32\<close> below). A pointer
  is an address into a store, \<open>None\<close> for \<^verbatim>\<open>NULL\<close>; a \<^verbatim>\<open>float[3]\<close> is a triple.
\<close>

type_synonym u32 = "32 word"
type_synonym u16 = "16 word"
type_synonym float = real
type_synonym vec3 = "float \<times> float \<times> float"
type_synonym addr = nat

text \<open>
  Modelled from the spec: the macro \<^verbatim>\<open>BIT(n)\<close> comes from the platform header
  \<^verbatim>\<open>types.h\<close>, which is not part of the sources. The spec describes the flags as
  single bits packed into one integer, so \<open>BIT n\<close> is the word whose only set bit is
  bit \<open>n\<close>, that is \<^verbatim>\<open>1 << n\<close>.
\<close>

definition BIT :: "nat \<Rightarrow> 'a::len word" where
  "BIT n = push_bit n 1"

section \<open>Flags of the light environment (light.h, lines 88 to 98)\<close>

definition C3DF_LightEnv_Dirty :: u32 where
  "C3DF_LightEnv_Dirty = BIT 0"

definition C3DF_LightEnv_MtlDirty :: u32 where
  "C3DF_LightEnv_MtlDirty = BIT 1"

definition C3DF_LightEnv_LCDirty :: u32 where
  "C3DF_LightEnv_LCDirty = BIT 2"

definition C3DF_LightEnv_IsCP :: "nat \<Rightarrow> u32" where
  "C3DF_LightEnv_IsCP n = BIT (18 + n)"

definition C3DF_LightEnv_IsCP_Any :: u32 where
  "C3DF_LightEnv_IsCP_Any = push_bit 18 0xFF"

definition C3DF_LightEnv_LutDirty :: "nat \<Rightarrow> u32" where
  "C3DF_LightEnv_LutDirty n = BIT (26 + n)"

definition C3DF_LightEnv_LutDirtyAll :: u32 where
  "C3DF_LightEnv_LutDirtyAll = push_bit 26 0x3F"

text \<open>
  The seventeen flags the header names for the environment's 32-bit word, in the header's
  order, and the bit position each one's macro gives it.
\<close>

definition env_flag_positions :: "nat list" where
  "env_flag_positions = [0, 1, 2] @ map (\<lambda>n. 18 + n) [0..<8] @ map (\<lambda>n. 26 + n) [0..<6]"

definition env_flag_words :: "u32 list" where
  "env_flag_words =
     [C3DF_LightEnv_Dirty, C3DF_LightEnv_MtlDirty, C3DF_LightEnv_LCDirty]
     @ map C3DF_LightEnv_IsCP [0..<8] @ map C3DF_LightEnv_LutDirty [0..<6]"

text \<open>
  The three ranges of the flags word: the global, material and light-colour flags
  together, and the two masks the header defines for the per-light and the per-LUT bits.
\<close>

definition env_flag_groups :: "u32 list" where
  "env_flag_groups =
     [C3DF_LightEnv_Dirty OR C3DF_LightEnv_MtlDirty OR C3DF_LightEnv_LCDirty,
      C3DF_LightEnv_IsCP_Any, C3DF_LightEnv_LutDirtyAll]"

text \<open>Raising and clearing flag bits, as \<^verbatim>\<open>flags |= m\<close> and \<^verbatim>\<open>flags &= ~m\<close>.\<close>

definition raise_flags :: "'a::len word \<Rightarrow> 'a word \<Rightarrow> 'a word" where
  "raise_flags flags m = flags OR m"

definition clear_flags :: "'a::len word \<Rightarrow> 'a word \<Rightarrow> 'a word" where
  "clear_flags flags m = flags AND NOT m"

section \<open>Flags of a light (light.h, lines 247 to 258)\<close>

definition C3DF_Light_Enabled :: u16 where
  "C3DF_Light_Enabled = BIT 0"

definition C3DF_Light_Dirty :: u16 where
  "C3DF_Light_Dirty = BIT 1"

definition C3DF_Light_MatDirty :: u16 where
  "C3DF_Light_MatDirty = BIT 2"

definition C3DF_Light_SPDirty :: u16 where
  "C3DF_Light_SPDirty = BIT 14"

definition C3DF_Light_DADirty :: u16 where
  "C3DF_Light_DADirty = BIT 15"

section \<open>The data model (light.h and lightlut.h)\<close>

text \<open>
  Each C struct is a record with the struct's fields in the struct's order. Field names
  carry a prefix, since several structs name a field \<^verbatim>\<open>flags\<close>, \<^verbatim>\<open>ambient\<close>
  or \<^verbatim>\<open>diffuse\<close>. A fixed-size array of pointers is a list; \<open>wf_env\<close> says that
  the two arrays of an environment have the lengths the struct declares.
\<close>

record C3D_Material =
  mtl_ambient :: vec3
  mtl_diffuse :: vec3
  mtl_specular0 :: vec3
  mtl_specular1 :: vec3
  mtl_emission :: vec3

record C3D_LightLutInputConf =
  lutin_abs :: u32
  lutin_select :: u32
  lutin_scale :: u32

record C3D_LightEnvConf =
  conf_ambient :: u32
  conf_numLights :: u32
  conf_config :: "u32 \<times> u32"
  conf_lutInput :: C3D_LightLutInputConf
  conf_permutation :: u32

record C3D_LightEnv =
  env_flags :: u32
  env_luts :: "addr option list"
  env_ambient :: vec3
  env_lights :: "addr option list"
  env_conf :: C3D_LightEnvConf
  env_material :: C3D_Material

record C3D_LightMatConf =
  lmat_specular0 :: u32
  lmat_specular1 :: u32
  lmat_diffuse :: u32
  lmat_ambient :: u32

record C3D_LightConf =
  lconf_material :: C3D_LightMatConf
  lconf_position :: "u16 \<times> u16 \<times> u16"
  lconf_padding0 :: u16
  lconf_spotDir :: "u16 \<times> u16 \<times> u16"
  lconf_padding1 :: u16
  lconf_padding2 :: u32
  lconf_config :: u32
  lconf_distAttnBias :: u32
  lconf_distAttnScale :: u32

record C3D_Light =
  light_flags :: u16
  light_id :: u16
  light_parent :: "addr option"
  light_lut_SP :: "addr option"
  light_lut_DA :: "addr option"
  light_ambient :: vec3
  light_diffuse :: vec3
  light_specular0 :: vec3
  light_specular1 :: vec3
  light_conf :: C3D_LightConf

text \<open>
  The store holds the environments and the lights the caller has allocated, by address.
  A light points to its parent environment and the environment points back to its lights,
  so both live in one store and an operation on a light can reach its parent.
\<close>

record store =
  envs :: "addr \<rightharpoonup> C3D_LightEnv"
  lights :: "addr \<rightharpoonup> C3D_Light"

definition wf_env :: "C3D_LightEnv \<Rightarrow> bool" where
  "wf_env e \<longleftrightarrow> length (env_lights e) = 8 \<and> length (env_luts e) = 6"

definition light_count :: "C3D_LightEnv \<Rightarrow> nat" where
  "light_count e = length (filter (\<lambda>p. p \<noteq> None) (env_lights e))"

section \<open>Adding a light to an environment\<close>

text \<open>
  Modelled from the spec: \<^verbatim>\<open>C3D_LightInit\<close> is declared in light.h (line 280) and its
  body is not part of the sources. The spec: Init assigns the light the lowest free slot
  index of the environment (0 to 7); it fails with a negative result if all 8 slots are
  occupied, and then no state is mutated; on success it stores the back-reference to the
  environment, marks the light enabled, raises the corresponding per-light bit in the parent
  and the light's own general-dirty bit. The header's only group of eight per-slot bits is
  \<^verbatim>\<open>C3DF_LightEnv_IsCP(n)\<close>. Fields the spec does not mention keep their contents.
  A pointer that is not an allocated object of the store has no defined behaviour: \<open>None\<close>.
\<close>

definition free_slot :: "addr option list \<Rightarrow> nat option" where
  "free_slot ls = find (\<lambda>i. ls ! i = None) [0..<8]"

definition C3D_LightInit :: "addr \<Rightarrow> addr \<Rightarrow> store \<Rightarrow> (int \<times> store) option" where
  "C3D_LightInit light env s =
     (case lights s light of
        None \<Rightarrow> None
      | Some l \<Rightarrow>
          (case envs s env of
             None \<Rightarrow> None
           | Some e \<Rightarrow>
               (case free_slot (env_lights e) of
                  None \<Rightarrow> Some (- 1, s)
                | Some i \<Rightarrow>
                    Some (int i,
                      s\<lparr>envs := (envs s)(env \<mapsto>
                           e\<lparr>env_lights := (env_lights e)[i := Some light],
                             env_flags := raise_flags (env_flags e) (C3DF_LightEnv_IsCP i)\<rparr>),
                        lights := (lights s)(light \<mapsto>
                           l\<lparr>light_id := of_nat i,
                             light_parent := Some env,
                             light_flags := raise_flags (light_flags l)
                               (C3DF_Light_Enabled OR C3DF_Light_Dirty)\<rparr>)\<rparr>))))"

section \<open>Colour setters of a light\<close>

text \<open>
  A colour setter takes the light's address, the three components and the store.
\<close>

type_synonym setter = "addr \<Rightarrow> float \<Rightarrow> float \<Rightarrow> float \<Rightarrow> store \<Rightarrow> store option"

text \<open>
  \<^verbatim>\<open>C3D_LightColor\<close> (light.h, lines 404 to 409) calls \<^verbatim>\<open>C3D_LightDiffuse\<close>,
  \<^verbatim>\<open>C3D_LightSpecular0\<close> and \<^verbatim>\<open>C3D_LightSpecular1\<close> in this order with its own
  arguments. The header only declares the three; their bodies are not part of the sources,
  so they are parameters here. A call that has no defined result ends the sequence.
\<close>

definition C3D_LightColor ::
  "setter \<Rightarrow> setter \<Rightarrow> setter \<Rightarrow> addr \<Rightarrow> float \<Rightarrow> float \<Rightarrow> float \<Rightarrow> store \<Rightarrow> store option" where
  "C3D_LightColor lightDiffuse lightSpecular0 lightSpecular1 light r g b s =
     (case lightDiffuse light r g b s of
        None \<Rightarrow> None
      | Some s1 \<Rightarrow>
          (case lightSpecular0 light r g b s1 of
             None \<Rightarrow> None
           | Some s2 \<Rightarrow> lightSpecular1 light r g b s2))"

text \<open>Three setter calls one after the other, in any chosen order.\<close>

definition call3 :: "setter \<Rightarrow> setter \<Rightarrow> setter \<Rightarrow> setter" where
  "call3 f1 f2 f3 light r g b s =
     Option.bind (Option.bind (f1 light r g b s) (f2 light r g b)) (f3 light r g b)"

text \<open>The three colours a light stores, read from the store.\<close>

definition stored_colors :: "store \<Rightarrow> addr \<Rightarrow> (vec3 \<times> vec3 \<times> vec3) option" where
  "stored_colors s light =
     map_option (\<lambda>l. (light_diffuse l, light_specular0 l, light_specular1 l)) (lights s light)"

text \<open>
  What the composite setter needs of a colour setter: a call that returns has left in its
  own field a value that its three arguments determine (\<open>sets_field\<close>; \<open>put r g b\<close> is that
  value, whatever layout the setter gives it), and has left another colour field of the
  same light as it was (\<open>keeps_field\<close>).
\<close>

definition sets_field ::
  "(C3D_Light \<Rightarrow> vec3) \<Rightarrow> (float \<Rightarrow> float \<Rightarrow> float \<Rightarrow> vec3) \<Rightarrow> setter \<Rightarrow> bool" where
  "sets_field fld put f \<longleftrightarrow>
     (\<forall>light r g b s s'. f light r g b s = Some s' \<longrightarrow>
        (\<exists>l'. lights s' light = Some l' \<and> fld l' = put r g b))"

definition keeps_field :: "(C3D_Light \<Rightarrow> vec3) \<Rightarrow> setter \<Rightarrow> bool" where
  "keeps_field fld f \<longleftrightarrow>
     (\<forall>light r g b s s' l. f light r g b s = Some s' \<longrightarrow> lights s light = Some l \<longrightarrow>
        (\<exists>l'. lights s' light = Some l' \<and> fld l' = fld l))"

definition setter_contract ::
  "(float \<Rightarrow> float \<Rightarrow> float \<Rightarrow> vec3) \<Rightarrow> (float \<Rightarrow> float \<Rightarrow> float \<Rightarrow> vec3) \<Rightarrow>
   (float \<Rightarrow> float \<Rightarrow> float \<Rightarrow> vec3) \<Rightarrow> setter \<Rightarrow> setter \<Rightarrow> setter \<Rightarrow> bool" where
  "setter_contract putD putS0 putS1 lightDiffuse lightSpecular0 lightSpecular1 \<longleftrightarrow>
     sets_field light_diffuse putD lightDiffuse \<and>
     keeps_field light_specular0 lightDiffuse \<and> keeps_field light_specular1 lightDiffuse \<and>
     sets_field light_specular0 putS0 lightSpecular0 \<and>
     keeps_field light_diffuse lightSpecular0 \<and> keeps_field light_specular1 lightSpecular0 \<and>
     sets_field light_specular1 putS1 lightSpecular1 \<and>
     keeps_field light_diffuse lightSpecular1 \<and> keeps_field light_specular0 lightSpecular1"

text \<open>
  The three calls in the order \<open>f1\<close>, \<open>f2\<close>, \<open>f3\<close> leave the colours \<open>c\<close> (diffuse,
  specular0, specular1) in the light, whenever they return.
\<close>

definition leaves_colors ::
  "vec3 \<times> vec3 \<times> vec3 \<Rightarrow> setter \<Rightarrow> setter \<Rightarrow> setter \<Rightarrow>
   addr \<Rightarrow> float \<Rightarrow> float \<Rightarrow> float \<Rightarrow> store \<Rightarrow> bool" where
  "leaves_colors c f1 f2 f3 light r g b s \<longleftrightarrow>
     (\<forall>s'. call3 f1 f2 f3 light r g b s = Some s' \<longrightarrow> stored_colors s' light = Some c)"

text \<open>The layout in which the modelled setters below store a colour: as given.\<close>

definition rgb :: "float \<Rightarrow> float \<Rightarrow> float \<Rightarrow> vec3" where
  "rgb r g b = (r, g, b)"

text \<open>
  Modelled from the spec: the bodies of \<^verbatim>\<open>C3D_LightDiffuse\<close>, \<^verbatim>\<open>C3D_LightSpecular0\<close>
  and \<^verbatim>\<open>C3D_LightSpecular1\<close> (declared in light.h, lines 323 to 341) are not part of the
  sources. The spec: each stores the colour, raises material-contribution dirty on the light
  and propagates a "light material changed" signal to the parent. The signal is taken to be
  the environment's light-colour flag. They serve as an instance of the parameters of
  \<open>C3D_LightColor\<close>.
\<close>

definition light_color_setter :: "(vec3 \<Rightarrow> C3D_Light \<Rightarrow> C3D_Light) \<Rightarrow> setter" where
  "light_color_setter upd light r g b s =
     (case lights s light of
        None \<Rightarrow> None
      | Some l \<Rightarrow>
          (case light_parent l of
             None \<Rightarrow> None
           | Some p \<Rightarrow>
               (case envs s p of
                  None \<Rightarrow> None
                | Some e \<Rightarrow>
                    Some (s\<lparr>envs := (envs s)(p \<mapsto>
                              e\<lparr>env_flags := raise_flags (env_flags e) C3DF_LightEnv_LCDirty\<rparr>),
                            lights := (lights s)(light \<mapsto>
                              (upd (rgb r g b) l)\<lparr>light_flags :=
                                 raise_flags (light_flags l) C3DF_Light_MatDirty\<rparr>)\<rparr>))))"

definition C3D_LightDiffuse :: setter where
  "C3D_LightDiffuse = light_color_setter (\<lambda>c l. l\<lparr>light_diffuse := c\<rparr>)"

definition C3D_LightSpecular0 :: setter where
  "C3D_LightSpecular0 = light_color_setter (\<lambda>c l. l\<lparr>light_specular0 := c\<rparr>)"

definition C3D_LightSpecular1 :: setter where
  "C3D_LightSpecular1 = light_color_setter (\<lambda>c l. l\<lparr>light_specular1 := c\<rparr>)"

section \<open>Distance attenuation (lightlut.h, lines 23 to 26)\<close>

text \<open>
  \<^verbatim>\<open>quadratic_dist_attn\<close> computes with floats, so here a float is a binary32 number of
  IEEE 754: a finite value, an infinity or a NaN. Every operation gives the exact result
  rounded to the nearest binary32 number, ties to the even significand, with gradual
  underflow and overflow to an infinity; each product and each sum of the source rounds on
  its own. The sign of a zero is not kept: it shows only in the sign of the infinity that
  an IEEE machine returns for a division by zero, and that case is \<open>None\<close> here.
\<close>

datatype float32 = Fin real | PInf | NInf | NaN

text \<open>Rounding a real to the nearest integer, a tie to the even one.\<close>

definition rne :: "real \<Rightarrow> int" where
  "rne r = (let f = \<lfloor>r\<rfloor>; d = r - of_int f
            in if d < 1 / 2 then f else if 1 / 2 < d then f + 1
               else if even f then f else f + 1)"

text \<open>
  The binary exponent at which \<open>x\<close> is rounded: the largest \<open>e\<close> from -126 to 127 with
  \<open>2 ^ e \<le> |x|\<close>, and -126 for the subnormal range below.
\<close>

definition expo32 :: "real \<Rightarrow> int" where
  "expo32 x = (case find (\<lambda>e. 2 powi e \<le> \<bar>x\<bar>) (rev [- 126..127]) of
                 Some e \<Rightarrow> e | None \<Rightarrow> - 126)"

text \<open>
  Rounding to binary32: a significand of 24 bits, so the spacing at exponent \<open>e\<close> is
  \<open>2 ^ (e - 23)\<close>; a result of magnitude \<open>2 ^ 128\<close> or more is an infinity.
\<close>

definition round32 :: "real \<Rightarrow> float32" where
  "round32 x =
     (let q = 2 powi (expo32 x - 23); y = of_int (rne (x / q)) * q
      in if 2 ^ 128 \<le> y then PInf else if y \<le> - (2 ^ 128) then NInf else Fin y)"

text \<open>
  The product, the sum and the quotient of IEEE 754, with its rules for infinities and
  NaN. Patterns are tried in the order written.
\<close>

fun fmul :: "float32 \<Rightarrow> float32 \<Rightarrow> float32" where
  "fmul NaN y = NaN"
| "fmul x NaN = NaN"
| "fmul (Fin a) (Fin b) = round32 (a * b)"
| "fmul (Fin a) PInf = (if a = 0 then NaN else if 0 < a then PInf else NInf)"
| "fmul (Fin a) NInf = (if a = 0 then NaN else if 0 < a then NInf else PInf)"
| "fmul PInf (Fin b) = (if b = 0 then NaN else if 0 < b then PInf else NInf)"
| "fmul NInf (Fin b) = (if b = 0 then NaN else if 0 < b then NInf else PInf)"
| "fmul PInf PInf = PInf"
| "fmul PInf NInf = NInf"
| "fmul NInf PInf = NInf"
| "fmul NInf NInf = PInf"

fun fadd :: "float32 \<Rightarrow> float32 \<Rightarrow> float32" where
  "fadd NaN y = NaN"
| "fadd x NaN = NaN"
| "fadd (Fin a) (Fin b) = round32 (a + b)"
| "fadd PInf NInf = NaN"
| "fadd NInf PInf = NaN"
| "fadd PInf y = PInf"
| "fadd x PInf = PInf"
| "fadd NInf y = NInf"
| "fadd x NInf = NInf"

fun fquot :: "float32 \<Rightarrow> float32 \<Rightarrow> float32" where
  "fquot NaN y = NaN"
| "fquot x NaN = NaN"
| "fquot (Fin a) (Fin b) = round32 (a / b)"
| "fquot (Fin a) y = Fin 0"
| "fquot PInf (Fin b) = (if 0 < b then PInf else NInf)"
| "fquot NInf (Fin b) = (if 0 < b then NInf else PInf)"
| "fquot x y = NaN"

text \<open>
  The division of the source has no test of the divisor. ISO C leaves a division by zero
  undefined (an IEEE machine answers with an infinity or a NaN): a zero divisor gives
  \<open>None\<close>.
\<close>

definition fdiv :: "float32 \<Rightarrow> float32 \<Rightarrow> float32 option" where
  "fdiv a b = (if b = Fin 0 then None else Some (fquot a b))"

text \<open>
  The parameters \<^verbatim>\<open>dist\<close> and \<^verbatim>\<open>linear\<close> of the source are \<open>dst\<close> and \<open>lin\<close> here
  (both names are constants of the library). The source's expression
  \<^verbatim>\<open>1.0f / (1.0f + linear*dist + quad*dist*dist)\<close> groups as written below.
\<close>

definition quadratic_dist_attn :: "float32 \<Rightarrow> float32 \<Rightarrow> float32 \<Rightarrow> float32 option" where
  "quadratic_dist_attn dst lin quad =
     fdiv (Fin 1) (fadd (fadd (Fin 1) (fmul lin dst)) (fmul (fmul quad dst) dst))"

text \<open>The divisor of that expression, as the source computes it.\<close>

definition attn_denominator :: "float32 \<Rightarrow> float32 \<Rightarrow> float32 \<Rightarrow> float32" where
  "attn_denominator dst lin quad = fadd (fadd (Fin 1) (fmul lin dst)) (fmul (fmul quad dst) dst)"

section \<open>Example stores\<close>

definition material0 :: C3D_Material where
  "material0 = \<lparr>mtl_ambient = (0, 0, 0), mtl_diffuse = (0, 0, 0), mtl_specular0 = (0, 0, 0),
     mtl_specular1 = (0, 0, 0), mtl_emission = (0, 0, 0)\<rparr>"

definition envconf0 :: C3D_LightEnvConf where
  "envconf0 = \<lparr>conf_ambient = 0, conf_numLights = 0, conf_config = (0, 0),
     conf_lutInput = \<lparr>lutin_abs = 0, lutin_select = 0, lutin_scale = 0\<rparr>,
     conf_permutation = 0\<rparr>"

definition lightconf0 :: C3D_LightConf where
  "lightconf0 = \<lparr>lconf_material = \<lparr>lmat_specular0 = 0, lmat_specular1 = 0, lmat_diffuse = 0,
       lmat_ambient = 0\<rparr>,
     lconf_position = (0, 0, 0), lconf_padding0 = 0, lconf_spotDir = (0, 0, 0),
     lconf_padding1 = 0, lconf_padding2 = 0, lconf_config = 0, lconf_distAttnBias = 0,
     lconf_distAttnScale = 0\<rparr>"

text \<open>An environment with the given light slots and nothing else set.\<close>

definition env_with :: "addr option list \<Rightarrow> C3D_LightEnv" where
  "env_with ls = \<lparr>env_flags = 0, env_luts = replicate 6 None, env_ambient = (0, 0, 0),
     env_lights = ls, env_conf = envconf0, env_material = material0\<rparr>"

text \<open>A light as a caller's zeroed memory holds it before \<^verbatim>\<open>C3D_LightInit\<close>.\<close>

definition light0 :: C3D_Light where
  "light0 = \<lparr>light_flags = 0, light_id = 0, light_parent = None, light_lut_SP = None,
     light_lut_DA = None, light_ambient = (0, 0, 0), light_diffuse = (0, 0, 0),
     light_specular0 = (0, 0, 0), light_specular1 = (0, 0, 0), light_conf = lightconf0\<rparr>"

text \<open>
  An environment at address 100 whose eight slots hold the lights 1 to 8, and a ninth
  light at address 9.
\<close>

definition store_full :: store where
  "store_full = \<lparr>envs = [100 \<mapsto> env_with [Some 1, Some 2, Some 3, Some 4, Some 5, Some 6,
       Some 7, Some 8]],
     lights = [9 \<mapsto> light0]\<rparr>"

text \<open>
  An environment at address 100 with the lights 1 and 3 in slots 0 and 2, and a new light
  at address 2; then the store after the new light has been added.
\<close>

definition store_free :: store where
  "store_free = \<lparr>envs = [100 \<mapsto> env_with [Some 1, None, Some 3, None, None, None, None,
       None]],
     lights = [2 \<mapsto> light0]\<rparr>"

definition store_free_added :: store where
  "store_free_added =
     \<lparr>envs = [100 \<mapsto> (env_with [Some 1, Some 2, Some 3, None, None, None, None, None])
         \<lparr>env_flags := 0x80000\<rparr>],
      lights = [2 \<mapsto> light0\<lparr>light_flags := 3, light_id := 1, light_parent := Some 100\<rparr>]\<rparr>"

text \<open>
  A light at address 1, attached to slot 0 of the environment at address 100, before and
  after its three colours are set to \<open>(1, 1/2, 0)\<close>.
\<close>

definition store_lit :: store where
  "store_lit = \<lparr>envs = [100 \<mapsto> env_with [Some 1, None, None, None, None, None, None, None]],
     lights = [1 \<mapsto> light0\<lparr>light_flags := 3, light_parent := Some 100\<rparr>]\<rparr>"

definition store_lit_colored :: store where
  "store_lit_colored =
     \<lparr>envs = [100 \<mapsto> (env_with [Some 1, None, None, None, None, None, None, None])
         \<lparr>env_flags := 4\<rparr>],
      lights = [1 \<mapsto> light0\<lparr>light_flags := 7, light_parent := Some 100,
         light_diffuse := (1, 1 / 2, 0), light_specular0 := (1, 1 / 2, 0),
         light_specular1 := (1, 1 / 2, 0)\<rparr>]\<rparr>"

section \<open>Facts about the flag words\<close>

lemma bit_BIT: "bit (BIT n :: 'a::len word) k \<longleftrightarrow> k = n \<and> n < LENGTH('a)"
  by (auto simp: BIT_def bit_exp_iff)

lemma env_flag_words_BIT: "env_flag_words = map BIT env_flag_positions"
  by (simp add: env_flag_words_def env_flag_positions_def C3DF_LightEnv_Dirty_def
      C3DF_LightEnv_MtlDirty_def C3DF_LightEnv_LCDirty_def C3DF_LightEnv_IsCP_def
      C3DF_LightEnv_LutDirty_def)

lemma distinct_env_flag_positions: "distinct env_flag_positions"
  by (simp add: env_flag_positions_def upt_conv_Cons)

lemma length_env_flag_positions: "length env_flag_positions = 17"
  by (simp add: env_flag_positions_def)

lemma BIT_disjoint: "i \<noteq> j \<Longrightarrow> (BIT i :: 'a::len word) AND BIT j = 0"
  by (rule bit_eqI) (auto simp: bit_and_iff bit_BIT)

lemma raise_flags_other: "m AND b = 0 \<Longrightarrow> raise_flags x m AND b = x AND b"
  by (simp add: raise_flags_def bit.conj_disj_distrib2)

lemma clear_flags_other:
  assumes "m AND b = 0"
  shows "clear_flags x m AND b = x AND b"
proof (rule bit_eqI)
  fix k
  have "bit (m AND b) k = False"
    using assms by simp
  then have "\<not> (bit m k \<and> bit b k)"
    by (simp add: bit_and_iff)
  then show "bit (clear_flags x m AND b) k = bit (x AND b) k"
    by (auto simp: clear_flags_def bit_and_iff bit_not_iff dest: bit_imp_le_length)
qed

lemma env_flag_words_disjoint:
  assumes "i < 17" "j < 17" "i \<noteq> j"
  shows "env_flag_words ! i AND env_flag_words ! j = 0"
proof -
  have "env_flag_positions ! i \<noteq> env_flag_positions ! j"
    using assms distinct_env_flag_positions length_env_flag_positions
    by (simp add: nth_eq_iff_index_eq)
  then show ?thesis
    using assms by (simp add: env_flag_words_BIT length_env_flag_positions BIT_disjoint)
qed

lemma three_groups: "(\<forall>i<3. P (i::nat)) \<longleftrightarrow> P 0 \<and> P 1 \<and> P 2"
proof -
  have "{..<3::nat} = {0, 1, 2}"
    by auto
  then have "(\<forall>i<3. P i) \<longleftrightarrow> (\<forall>i \<in> {0, 1, 2}. P i)"
    by (metis lessThan_iff)
  then show ?thesis by simp
qed

lemma env_flag_groups_disjoint:
  assumes "i < 3" "j < 3" "i \<noteq> j"
  shows "env_flag_groups ! i AND env_flag_groups ! j = 0"
proof -
  have "\<forall>i<3. \<forall>j<3. i \<noteq> j \<longrightarrow> env_flag_groups ! i AND env_flag_groups ! j = 0"
    unfolding three_groups
    by (simp add: env_flag_groups_def C3DF_LightEnv_Dirty_def C3DF_LightEnv_MtlDirty_def
        C3DF_LightEnv_LCDirty_def C3DF_LightEnv_IsCP_Any_def C3DF_LightEnv_LutDirtyAll_def
        BIT_def)
  with assms show ?thesis
    by blast
qed

lemma part_disjoint: "a AND b = 0 \<Longrightarrow> (m AND a) AND b = 0"
  for a b m :: "'a::len word"
  by (simp add: and.assoc)

lemma general_flags_mask: "env_flag_groups ! 0 = mask 3"
  by (simp add: env_flag_groups_def C3DF_LightEnv_Dirty_def C3DF_LightEnv_MtlDirty_def
      C3DF_LightEnv_LCDirty_def BIT_def mask_eq_exp_minus_1)

lemma IsCP_Any_mask: "C3DF_LightEnv_IsCP_Any = push_bit 18 (mask 8)"
  by (simp add: C3DF_LightEnv_IsCP_Any_def mask_eq_exp_minus_1)

lemma LutDirtyAll_mask: "C3DF_LightEnv_LutDirtyAll = push_bit 26 (mask 6)"
  by (simp add: C3DF_LightEnv_LutDirtyAll_def mask_eq_exp_minus_1)

lemma IsCP_in_group:
  "n < 8 \<Longrightarrow> C3DF_LightEnv_IsCP n AND C3DF_LightEnv_IsCP_Any = C3DF_LightEnv_IsCP n"
  by (rule bit_eqI)
    (auto simp: C3DF_LightEnv_IsCP_def IsCP_Any_mask bit_and_iff bit_BIT bit_push_bit_iff
      bit_mask_iff)

lemma LutDirty_in_group:
  "n < 6 \<Longrightarrow>
     C3DF_LightEnv_LutDirty n AND C3DF_LightEnv_LutDirtyAll = C3DF_LightEnv_LutDirty n"
  by (rule bit_eqI)
    (auto simp: C3DF_LightEnv_LutDirty_def LutDirtyAll_mask bit_and_iff bit_BIT
      bit_push_bit_iff bit_mask_iff)

lemma nth_env_flag_words_3: "env_flag_words ! 3 = C3DF_LightEnv_IsCP 0"
  by (simp add: env_flag_words_def upt_conv_Cons)

lemma nth_env_flag_words_11: "env_flag_words ! 11 = C3DF_LightEnv_LutDirty 0"
  by (simp add: env_flag_words_def upt_conv_Cons)

lemma nth_env_flag_groups: "env_flag_groups ! 1 = C3DF_LightEnv_IsCP_Any"
  "env_flag_groups ! 2 = C3DF_LightEnv_LutDirtyAll"
  by (simp_all add: env_flag_groups_def)

text \<open>
  Claim C9. The flag bits of the environment's 32-bit word lie in disjoint ranges: the
  global, material and light-colour flags are bits 0 to 2, the eight bits
  \<^verbatim>\<open>C3DF_LightEnv_IsCP(n)\<close> are bits 18 to 25 and the six bits
  \<^verbatim>\<open>C3DF_LightEnv_LutDirty(n)\<close> are bits 26 to 31. Any two of the seventeen flags are
  disjoint and any two of the three ranges are disjoint, so raising or clearing one flag, or
  any bits \<open>m\<close> of one range, in any flags word leaves every other flag and every other
  range as it was.
\<close>

theorem env_flag_bits_disjoint:
  "env_flag_groups ! 0 = mask 3
   \<and> C3DF_LightEnv_IsCP_Any = push_bit 18 (mask 8)
   \<and> C3DF_LightEnv_LutDirtyAll = push_bit 26 (mask 6)
   \<and> (\<forall>n<8. (\<forall>k. bit (C3DF_LightEnv_IsCP n) k \<longleftrightarrow> k = 18 + n)
         \<and> C3DF_LightEnv_IsCP n AND C3DF_LightEnv_IsCP_Any = C3DF_LightEnv_IsCP n)
   \<and> (\<forall>n<6. (\<forall>k. bit (C3DF_LightEnv_LutDirty n) k \<longleftrightarrow> k = 26 + n)
         \<and> C3DF_LightEnv_LutDirty n AND C3DF_LightEnv_LutDirtyAll = C3DF_LightEnv_LutDirty n)
   \<and> (\<forall>i<17. \<forall>j<17. i \<noteq> j \<longrightarrow>
         env_flag_words ! i AND env_flag_words ! j = 0
         \<and> raise_flags flags (env_flag_words ! i) AND env_flag_words ! j
             = flags AND env_flag_words ! j
         \<and> clear_flags flags (env_flag_words ! i) AND env_flag_words ! j
             = flags AND env_flag_words ! j)
   \<and> (\<forall>i<3. \<forall>j<3. i \<noteq> j \<longrightarrow>
         env_flag_groups ! i AND env_flag_groups ! j = 0
         \<and> raise_flags flags (m AND env_flag_groups ! i) AND env_flag_groups ! j
             = flags AND env_flag_groups ! j
         \<and> clear_flags flags (m AND env_flag_groups ! i) AND env_flag_groups ! j
             = flags AND env_flag_groups ! j)"
proof (intro conjI allI impI)
  show "env_flag_groups ! 0 = mask 3"
    by (rule general_flags_mask)
  show "C3DF_LightEnv_IsCP_Any = push_bit 18 (mask 8)"
    by (rule IsCP_Any_mask)
  show "C3DF_LightEnv_LutDirtyAll = push_bit 26 (mask 6)"
    by (rule LutDirtyAll_mask)
next
  fix n k :: nat
  assume "n < 8"
  then show "bit (C3DF_LightEnv_IsCP n) k \<longleftrightarrow> k = 18 + n"
    by (auto simp: C3DF_LightEnv_IsCP_def bit_BIT)
next
  fix n :: nat
  assume "n < 8"
  then show "C3DF_LightEnv_IsCP n AND C3DF_LightEnv_IsCP_Any = C3DF_LightEnv_IsCP n"
    by (rule IsCP_in_group)
next
  fix n k :: nat
  assume "n < 6"
  then show "bit (C3DF_LightEnv_LutDirty n) k \<longleftrightarrow> k = 26 + n"
    by (auto simp: C3DF_LightEnv_LutDirty_def bit_BIT)
next
  fix n :: nat
  assume "n < 6"
  then show "C3DF_LightEnv_LutDirty n AND C3DF_LightEnv_LutDirtyAll
      = C3DF_LightEnv_LutDirty n"
    by (rule LutDirty_in_group)
next
  fix i j :: nat
  assume ij: "i < 17" "j < 17" "i \<noteq> j"
  then show d: "env_flag_words ! i AND env_flag_words ! j = 0"
    by (rule env_flag_words_disjoint)
  from d show "raise_flags flags (env_flag_words ! i) AND env_flag_words ! j
      = flags AND env_flag_words ! j"
    by (rule raise_flags_other)
  from d show "clear_flags flags (env_flag_words ! i) AND env_flag_words ! j
      = flags AND env_flag_words ! j"
    by (rule clear_flags_other)
next
  fix i j :: nat
  assume ij: "i < 3" "j < 3" "i \<noteq> j"
  then show d: "env_flag_groups ! i AND env_flag_groups ! j = 0"
    by (rule env_flag_groups_disjoint)
  then have p: "(m AND env_flag_groups ! i) AND env_flag_groups ! j = 0"
    by (rule part_disjoint)
  from p show "raise_flags flags (m AND env_flag_groups ! i) AND env_flag_groups ! j
      = flags AND env_flag_groups ! j"
    by (rule raise_flags_other)
  from p show "clear_flags flags (m AND env_flag_groups ! i) AND env_flag_groups ! j
      = flags AND env_flag_groups ! j"
    by (rule clear_flags_other)
qed

text \<open>
  An instance: with the global, light-colour and first LUT flag set, raising and then
  clearing \<^verbatim>\<open>C3DF_LightEnv_IsCP(0)\<close> changes bit 18 only, and raising all eight per-light
  bits at once leaves the per-LUT bits as they were.
\<close>

theorem env_flag_bits_disjoint_witness:
  "C3DF_LightEnv_IsCP 0 AND C3DF_LightEnv_LutDirty 0 = 0
   \<and> raise_flags (0x04000005 :: u32) (C3DF_LightEnv_IsCP 0) = 0x04040005
   \<and> raise_flags (0x04000005 :: u32) (C3DF_LightEnv_IsCP 0) AND C3DF_LightEnv_LutDirty 0
       = 0x04000005 AND C3DF_LightEnv_LutDirty 0
   \<and> clear_flags (0x04040005 :: u32) (C3DF_LightEnv_IsCP 0) = 0x04000005
   \<and> clear_flags (0x04040005 :: u32) (C3DF_LightEnv_IsCP 0) AND C3DF_LightEnv_LutDirty 0
       = 0x04040005 AND C3DF_LightEnv_LutDirty 0
   \<and> bit (C3DF_LightEnv_IsCP 7) 25 \<and> bit (C3DF_LightEnv_LutDirty 5) 31
   \<and> raise_flags (0x04000005 :: u32) (0xFFFFFFFF AND C3DF_LightEnv_IsCP_Any) = 0x07FC0005
   \<and> raise_flags (0x04000005 :: u32) (0xFFFFFFFF AND C3DF_LightEnv_IsCP_Any)
         AND C3DF_LightEnv_LutDirtyAll
       = 0x04000005 AND C3DF_LightEnv_LutDirtyAll"
proof -
  have a: "(3::nat) < 17" "(11::nat) < 17" "(3::nat) \<noteq> 11" "(7::nat) < 8" "(5::nat) < 6"
    "(1::nat) < 3" "(2::nat) < 3" "(1::nat) \<noteq> 2"
    by simp_all
  note t = env_flag_bits_disjoint
  have "env_flag_words ! 3 AND env_flag_words ! 11 = 0"
    using t a by blast
  moreover have "raise_flags (0x04000005 :: u32) (env_flag_words ! 3) AND env_flag_words ! 11
      = 0x04000005 AND env_flag_words ! 11"
    using t [of "0x04000005"] a by blast
  moreover have "clear_flags (0x04040005 :: u32) (env_flag_words ! 3) AND env_flag_words ! 11
      = 0x04040005 AND env_flag_words ! 11"
    using t [of "0x04040005"] a by blast
  moreover have "bit (C3DF_LightEnv_IsCP 7) 25" "bit (C3DF_LightEnv_LutDirty 5) 31"
    using t a by simp_all
  moreover have "raise_flags (0x04000005 :: u32) (0xFFFFFFFF AND env_flag_groups ! 1)
        AND env_flag_groups ! 2
      = 0x04000005 AND env_flag_groups ! 2"
    using t [of "0x04000005" "0xFFFFFFFF"] a by blast
  moreover have "raise_flags (0x04000005 :: u32) (C3DF_LightEnv_IsCP 0) = 0x04040005"
    "clear_flags (0x04040005 :: u32) (C3DF_LightEnv_IsCP 0) = 0x04000005"
    "raise_flags (0x04000005 :: u32) (0xFFFFFFFF AND C3DF_LightEnv_IsCP_Any) = 0x07FC0005"
    by (simp_all add: raise_flags_def clear_flags_def C3DF_LightEnv_IsCP_def BIT_def
        C3DF_LightEnv_IsCP_Any_def)
  ultimately show ?thesis
    by (simp only: nth_env_flag_words_3 nth_env_flag_words_11 nth_env_flag_groups simp_thms)
qed

section \<open>The quadratic attenuation function\<close>

text \<open>
  Rounding stays within half a spacing of the exact value, and \<open>expo32\<close> is the binary
  exponent: \<open>2 ^ expo32 x \<le> |x| < 2 ^ (expo32 x + 1)\<close> on the normal range.
\<close>

lemma rne_close: "\<bar>of_int (rne r) - r\<bar> \<le> 1 / 2"
  unfolding rne_def Let_def by (auto simp: abs_if) linarith+

lemma rne_of_int: "rne (of_int n) = n"
  by (simp add: rne_def)

lemma find_rev_upto:
  "find P (rev [l..u]) = (if u < l then None else if P u then Some u else find P (rev [l..u - 1]))"
proof (cases "u < l")
  case True
  then show ?thesis by simp
next
  case False
  then have "[l..u] = [l..u - 1] @ [u]"
    by (intro upto_rec2) simp
  with False show ?thesis by simp
qed

lemma find_rev_upto_None:
  assumes "\<forall>e'. l \<le> e' \<and> e' \<le> u \<longrightarrow> \<not> P e'"
  shows "find P (rev [l..u]) = None"
  using assms by (auto simp: find_None_iff)

lemma find_rev_upto_Some:
  assumes "l \<le> e" "e \<le> u" "P e" "\<forall>e'. e < e' \<and> e' \<le> u \<longrightarrow> \<not> P e'"
  shows "find P (rev [l..u]) = Some e"
  using assms
proof (induction "nat (u - e)" arbitrary: u)
  case 0
  then have "u = e" by simp
  with 0 show ?case
    by (subst find_rev_upto) simp
next
  case (Suc n)
  then have "e < u" by linarith
  with Suc.prems have np: "\<not> P u" by blast
  have "find P (rev [l..u - 1]) = Some e"
    using Suc.hyps(2) Suc.prems \<open>e < u\<close> by (intro Suc.hyps(1)) auto
  with np \<open>e < u\<close> Suc.prems(1) show ?case
    by (subst find_rev_upto) simp
qed

lemma expo32_eq:
  assumes "- 126 \<le> e" "e \<le> 127" "2 powi e \<le> \<bar>x\<bar>" "\<bar>x\<bar> < 2 powi (e + 1)"
  shows "expo32 x = e"
proof -
  have "\<not> 2 powi e' \<le> \<bar>x\<bar>" if "e < e'" for e'
  proof -
    have "(2::real) powi (e + 1) \<le> 2 powi e'"
      using that by (intro power_int_increasing) simp_all
    with assms(4) show ?thesis by simp
  qed
  then have "find (\<lambda>e. 2 powi e \<le> \<bar>x\<bar>) (rev [- 126..127]) = Some e"
    using assms(1-3) by (intro find_rev_upto_Some) simp_all
  then show ?thesis
    by (simp add: expo32_def)
qed

lemma expo32_small:
  assumes "\<bar>x\<bar> < 2 powi (- 126)"
  shows "expo32 x = - 126"
proof -
  have "\<not> 2 powi e' \<le> \<bar>x\<bar>" if "- 126 \<le> e'" for e'
  proof -
    have "(2::real) powi (- 126) \<le> 2 powi e'"
      using that by (intro power_int_increasing) simp_all
    with assms show ?thesis by simp
  qed
  then have "find (\<lambda>e. 2 powi e \<le> \<bar>x\<bar>) (rev [- 126..127]) = None"
    by (intro find_rev_upto_None) simp
  then show ?thesis
    by (simp add: expo32_def)
qed

lemma expo32_lower:
  assumes "2 powi (- 126) \<le> \<bar>x\<bar>"
  shows "2 powi (expo32 x) \<le> \<bar>x\<bar>"
proof (cases "find (\<lambda>e. 2 powi e \<le> \<bar>x\<bar>) (rev [- 126..127])")
  case None
  then show ?thesis
    using assms by (simp add: expo32_def)
next
  case (Some e)
  then have "2 powi e \<le> \<bar>x\<bar>"
    by (auto simp: find_Some_iff)
  with Some show ?thesis
    by (simp add: expo32_def)
qed

lemma round32_finite:
  assumes "expo32 x = e" and "rne (x * 2 powi (23 - e)) = n"
    and "\<bar>of_int n * 2 powi (e - 23)\<bar> < (2::real) ^ 128"
  shows "round32 x = Fin (of_int n * 2 powi (e - 23))"
proof -
  have "x / 2 powi (e - 23) = x * 2 powi (23 - e)"
    by (simp add: power_int_diff field_simps)
  with assms show ?thesis
    by (auto simp: round32_def Let_def)
qed

lemma find_rev_upto_SomeD:
  assumes "find P (rev [l..u]) = Some e"
  shows "l \<le> e \<and> e \<le> u \<and> P e \<and> (\<forall>e'. e < e' \<and> e' \<le> u \<longrightarrow> \<not> P e')"
  using assms
proof (induction "nat (u + 1 - l)" arbitrary: u)
  case 0
  then have "u < l" by simp
  with 0 show ?case by simp
next
  case (Suc n)
  then have lu: "l \<le> u" by linarith
  show ?case
  proof (cases "P u")
    case True
    with lu Suc.prems have "e = u"
      by (subst (asm) find_rev_upto) simp
    with True lu show ?thesis by auto
  next
    case False
    with lu Suc.prems have "find P (rev [l..u - 1]) = Some e"
      by (subst (asm) find_rev_upto) simp
    moreover have "n = nat (u - 1 + 1 - l)"
      using Suc.hyps(2) by linarith
    ultimately have ih: "l \<le> e \<and> e \<le> u - 1 \<and> P e
        \<and> (\<forall>e'. e < e' \<and> e' \<le> u - 1 \<longrightarrow> \<not> P e')"
      by (rule Suc.hyps(1) [rotated])
    have "\<not> P e'" if "e < e'" "e' \<le> u" for e'
    proof (cases "e' = u")
      case True
      with False show ?thesis by simp
    next
      case False
      with that have "e' \<le> u - 1" by simp
      with ih that show ?thesis by blast
    qed
    with ih show ?thesis
      by simp
  qed
qed

lemma find_rev_upto_NoneD:
  assumes "find P (rev [l..u]) = None" "l \<le> e" "e \<le> u"
  shows "\<not> P e"
  using assms by (auto simp: find_None_iff)

lemma expo32_upper:
  assumes "\<bar>x\<bar> < 2 ^ 128"
  shows "\<bar>x\<bar> < 2 powi (expo32 x + 1)"
proof (cases "find (\<lambda>e. 2 powi e \<le> \<bar>x\<bar>) (rev [- 126..127])")
  case None
  then have "\<not> 2 powi (- 126) \<le> \<bar>x\<bar>"
    by (rule find_rev_upto_NoneD) simp_all
  moreover have "(2::real) powi (- 126) \<le> 2 powi (- 126 + 1)"
    by (intro power_int_increasing) simp_all
  ultimately show ?thesis
    using None by (simp add: expo32_def)
next
  case (Some e)
  note s = find_rev_upto_SomeD [OF Some]
  show ?thesis
  proof (cases "e = 127")
    case True
    with assms Some show ?thesis
      by (simp add: expo32_def)
  next
    case False
    with s have "\<not> 2 powi (e + 1) \<le> \<bar>x\<bar>"
      by simp
    with Some show ?thesis
      by (simp add: expo32_def)
  qed
qed

lemma round32_exact:
  assumes "expo32 x = e" and "x * 2 powi (23 - e) = of_int n" and "\<bar>x\<bar> < 2 ^ 128"
  shows "round32 x = Fin x"
proof -
  have "x = x * 2 powi (23 - e) * 2 powi (e - 23)"
    by (simp add: power_int_diff)
  then have x: "x = of_int n * 2 powi (e - 23)"
    using assms(2) by simp
  have "rne (x * 2 powi (23 - e)) = n"
    using assms(2) by (simp add: rne_of_int)
  with assms(1) have "round32 x = Fin (of_int n * 2 powi (e - 23))"
    using assms(3) x by (intro round32_finite) simp_all
  with x show ?thesis by simp
qed

lemma round32_0: "round32 0 = Fin 0"
  by (rule round32_exact [of 0 "- 126" 0]) (simp_all add: expo32_small)

lemma round32_close:
  assumes "round32 x = Fin y"
  shows "\<bar>y - x\<bar> \<le> 2 powi (expo32 x - 24)"
proof -
  define q :: real where "q = 2 powi (expo32 x - 23)"
  have q: "0 < q"
    by (simp add: q_def)
  from assms have y: "y = of_int (rne (x / q)) * q"
    by (auto simp: round32_def Let_def q_def split: if_splits)
  have "y - x = (of_int (rne (x / q)) - x / q) * q"
    using q by (simp add: y left_diff_distrib)
  then have "\<bar>y - x\<bar> = \<bar>of_int (rne (x / q)) - x / q\<bar> * q"
    using q by (simp add: abs_mult)
  also have "\<dots> \<le> 1 / 2 * q"
    using q rne_close [of "x / q"] by (intro mult_right_mono) simp_all
  also have "1 / 2 * q = 2 powi (expo32 x - 24)"
    by (simp add: q_def power_int_diff)
  finally show ?thesis .
qed

lemma round32_relative:
  assumes "round32 x = Fin y" and "2 powi (- 126) \<le> \<bar>x\<bar>"
  shows "\<bar>y - x\<bar> \<le> \<bar>x\<bar> / 2 ^ 24"
proof -
  have "\<bar>y - x\<bar> \<le> 2 powi (expo32 x - 24)"
    using assms(1) by (rule round32_close)
  also have "\<dots> = 2 powi (expo32 x) / 2 ^ 24"
    by (simp add: power_int_diff)
  also have "\<dots> \<le> \<bar>x\<bar> / 2 ^ 24"
    using expo32_lower [OF assms(2)] by (simp add: divide_right_mono)
  finally show ?thesis .
qed

lemma round32_seventh: "round32 (1 / 7) = Fin (9586981 / 67108864)"
proof -
  have "expo32 (1 / 7) = - 3"
    by (rule expo32_eq) (simp_all add: power_int_minus)
  moreover have "rne (1 / 7 * 2 powi (23 - (- 3))) = 9586981"
    by (simp add: rne_def)
  ultimately have "round32 (1 / 7) = Fin (of_int 9586981 * 2 powi (- 3 - 23))"
    by (rule round32_finite) (simp add: power_int_minus)
  then show ?thesis
    by (simp add: power_int_minus)
qed

lemma round32_tenth_times_ten:
  "round32 (- 10 * (13421773 / 134217728)) = Fin (- 1)"
proof -
  have "expo32 (- 10 * (13421773 / 134217728)) = 0"
    by (rule expo32_eq) simp_all
  moreover have "rne (- 10 * (13421773 / 134217728) * 2 powi (23 - 0)) = - 8388608"
    by (simp add: rne_def)
  ultimately have "round32 (- 10 * (13421773 / 134217728))
      = Fin (of_int (- 8388608) * 2 powi (0 - 23))"
    by (rule round32_finite) (simp add: power_int_minus)
  then show ?thesis
    by (simp add: power_int_minus)
qed

lemma round32_small_ints:
  "round32 2 = Fin 2" "round32 3 = Fin 3" "round32 4 = Fin 4" "round32 7 = Fin 7"
  "round32 (- 1) = Fin (- 1)" "round32 (- 10) = Fin (- 10)"
proof -
  have e: "expo32 2 = 1" "expo32 3 = 1" "expo32 4 = 2" "expo32 7 = 2" "expo32 (- 1) = 0"
    "expo32 (- 10) = 3"
    by (rule expo32_eq; simp)+
  show "round32 2 = Fin 2"
    by (rule round32_exact [OF e(1), of 8388608]) simp_all
  show "round32 3 = Fin 3"
    by (rule round32_exact [OF e(2), of 12582912]) simp_all
  show "round32 4 = Fin 4"
    by (rule round32_exact [OF e(3), of 8388608]) simp_all
  show "round32 7 = Fin 7"
    by (rule round32_exact [OF e(4), of 14680064]) simp_all
  show "round32 (- 1) = Fin (- 1)"
    by (rule round32_exact [OF e(5), of "- 8388608"]) simp_all
  show "round32 (- 10) = Fin (- 10)"
    by (rule round32_exact [OF e(6), of "- 10485760"]) simp_all
qed

lemma round32_tenth: "round32 (13421773 / 134217728) = Fin (13421773 / 134217728)"
proof -
  have "expo32 (13421773 / 134217728) = - 4"
    by (rule expo32_eq) (simp_all add: power_int_minus)
  then show ?thesis
    by (rule round32_exact [of _ _ 13421773]) simp_all
qed

text \<open>
  Claim C10, as the code has it. \<^verbatim>\<open>quadratic_dist_attn\<close> divides without a guard. Where
  the divisor \<^verbatim>\<open>1.0f + linear*dist + quad*dist*dist\<close>, as computed in binary32, is a finite
  number other than zero, the function returns the reciprocal of that divisor rounded to
  binary32 (within a relative error of \<open>2 ^ -24\<close> on the normal range) and no division by
  zero takes place; an infinite divisor gives zero and a NaN gives NaN. Where the computed
  divisor is zero the function has no defined result, and such inputs exist: \<open>dist = 1\<close>,
  \<open>linear = -1\<close>, \<open>quad = 0\<close> is one.
\<close>

theorem quadratic_dist_attn_division:
  "(\<forall>d. attn_denominator dst lin quad = Fin d \<longrightarrow> d \<noteq> 0 \<longrightarrow>
       quadratic_dist_attn dst lin quad = Some (round32 (1 / d))
       \<and> (\<forall>y. round32 (1 / d) = Fin y \<longrightarrow> 2 powi (- 126) \<le> \<bar>1 / d\<bar> \<longrightarrow>
             \<bar>y - 1 / d\<bar> \<le> \<bar>1 / d\<bar> / 2 ^ 24))
   \<and> (attn_denominator dst lin quad = Fin 0 \<longrightarrow> quadratic_dist_attn dst lin quad = None)
   \<and> (attn_denominator dst lin quad = PInf \<or> attn_denominator dst lin quad = NInf \<longrightarrow>
        quadratic_dist_attn dst lin quad = Some (Fin 0))
   \<and> (attn_denominator dst lin quad = NaN \<longrightarrow> quadratic_dist_attn dst lin quad = Some NaN)
   \<and> quadratic_dist_attn (Fin 1) (Fin (- 1)) (Fin 0) = None"
proof (intro conjI allI impI)
  fix d
  assume "attn_denominator dst lin quad = Fin d" "d \<noteq> 0"
  then show "quadratic_dist_attn dst lin quad = Some (round32 (1 / d))"
    by (simp add: quadratic_dist_attn_def attn_denominator_def fdiv_def)
next
  fix d y
  assume "round32 (1 / d) = Fin y" "2 powi (- 126) \<le> \<bar>1 / d\<bar>"
  then show "\<bar>y - 1 / d\<bar> \<le> \<bar>1 / d\<bar> / 2 ^ 24"
    by (rule round32_relative)
next
  assume "attn_denominator dst lin quad = Fin 0"
  then show "quadratic_dist_attn dst lin quad = None"
    by (simp add: quadratic_dist_attn_def attn_denominator_def fdiv_def)
next
  assume "attn_denominator dst lin quad = PInf \<or> attn_denominator dst lin quad = NInf"
  then show "quadratic_dist_attn dst lin quad = Some (Fin 0)"
    by (auto simp: quadratic_dist_attn_def attn_denominator_def fdiv_def)
next
  assume "attn_denominator dst lin quad = NaN"
  then show "quadratic_dist_attn dst lin quad = Some NaN"
    by (simp add: quadratic_dist_attn_def attn_denominator_def fdiv_def)
next
  show "quadratic_dist_attn (Fin 1) (Fin (- 1)) (Fin 0) = None"
    by (simp add: quadratic_dist_attn_def fdiv_def round32_small_ints round32_0)
qed

theorem quadratic_dist_attn_division_witness:
  "attn_denominator (Fin 2) (Fin 1) (Fin 1) = Fin 7
   \<and> quadratic_dist_attn (Fin 2) (Fin 1) (Fin 1) = Some (Fin (9586981 / 67108864))
   \<and> \<bar>9586981 / 67108864 - 1 / 7\<bar> \<le> \<bar>1 / (7::real)\<bar> / 2 ^ 24
   \<and> attn_denominator (Fin 1) (Fin (- 1)) (Fin 0) = Fin 0
   \<and> quadratic_dist_attn (Fin 1) (Fin (- 1)) (Fin 0) = None"
proof -
  have den: "attn_denominator (Fin 2) (Fin 1) (Fin 1) = Fin 7"
    by (simp add: attn_denominator_def round32_small_ints)
  have r: "round32 (1 / 7) = Fin (9586981 / 67108864)"
    by (rule round32_seventh)
  have n: "2 powi (- 126) \<le> \<bar>1 / (7::real)\<bar>"
    by (simp add: power_int_minus)
  have z: "attn_denominator (Fin 1) (Fin (- 1)) (Fin 0) = Fin 0"
    by (simp add: attn_denominator_def round32_small_ints round32_0)
  have seven: "(7::real) \<noteq> 0"
    by simp
  note t = quadratic_dist_attn_division [of "Fin 2" "Fin 1" "Fin 1", THEN conjunct1,
      rule_format, OF den seven]
  from t have "quadratic_dist_attn (Fin 2) (Fin 1) (Fin 1) = Some (round32 (1 / 7))"
    by (rule conjunct1)
  moreover from t have "\<bar>9586981 / 67108864 - 1 / 7\<bar> \<le> \<bar>1 / (7::real)\<bar> / 2 ^ 24"
    using r n by blast
  moreover
  from quadratic_dist_attn_division [of "Fin 1" "Fin (- 1)" "Fin 0", THEN conjunct2,
      THEN conjunct1, rule_format, OF z]
  have "quadratic_dist_attn (Fin 1) (Fin (- 1)) (Fin 0) = None" .
  ultimately show ?thesis
    using den r z by simp
qed

text \<open>
  The exact polynomial being other than zero does not keep the computed divisor from zero.
  At \<open>dist = 13421773 / 2 ^ 27\<close> (the float nearest to 0.1), \<open>linear = -10\<close>, \<open>quad = 0\<close>
  the polynomial is \<open>- 2 ^ -26\<close>, but the product \<open>linear * dist = - (1 + 2 ^ -26)\<close> rounds
  to \<open>-1\<close>, the divisor is zero and the division is one by zero.
\<close>

theorem quadratic_dist_attn_rounding_counterexample:
  "round32 (13421773 / 134217728) = Fin (13421773 / 134217728)
   \<and> round32 (- 10) = Fin (- 10)
   \<and> round32 0 = Fin 0
   \<and> 1 + (- 10) * (13421773 / 134217728) + 0 * (13421773 / 134217728) * (13421773 / 134217728)
       \<noteq> (0::real)
   \<and> attn_denominator (Fin (13421773 / 134217728)) (Fin (- 10)) (Fin 0) = Fin 0
   \<and> quadratic_dist_attn (Fin (13421773 / 134217728)) (Fin (- 10)) (Fin 0) = None"
proof -
  have m: "fmul (Fin (- 10)) (Fin (13421773 / 134217728)) = Fin (- 1)"
    unfolding fmul.simps by (rule round32_tenth_times_ten)
  have den: "attn_denominator (Fin (13421773 / 134217728)) (Fin (- 10)) (Fin 0) = Fin 0"
    unfolding attn_denominator_def m by (simp add: round32_0)
  then have "quadratic_dist_attn (Fin (13421773 / 134217728)) (Fin (- 10)) (Fin 0) = None"
    by (simp add: quadratic_dist_attn_def attn_denominator_def fdiv_def)
  moreover have "1 + (- 10) * (13421773 / 134217728)
      + 0 * (13421773 / 134217728) * (13421773 / 134217728) \<noteq> (0::real)"
    by simp
  ultimately show ?thesis
    using den round32_tenth round32_small_ints(6) round32_0 by blast
qed

section \<open>Adding a light: the slot search\<close>

lemma free_slot_None: "free_slot ls = None \<longleftrightarrow> (\<forall>i<8. ls ! i \<noteq> None)"
  by (auto simp: free_slot_def find_None_iff)

lemma free_slot_Some:
  "free_slot ls = Some i \<longleftrightarrow> i < 8 \<and> ls ! i = None \<and> (\<forall>j<i. ls ! j \<noteq> None)"
proof -
  have "free_slot ls = Some i \<longleftrightarrow>
      (\<exists>k<length [0..<8]. ls ! ([0..<8] ! k) = None \<and> i = [0..<8] ! k
         \<and> (\<forall>j<k. ls ! ([0..<8] ! j) \<noteq> None))"
    unfolding free_slot_def find_Some_iff by blast
  also have "\<dots> \<longleftrightarrow> i < 8 \<and> ls ! i = None \<and> (\<forall>j<i. ls ! j \<noteq> None)"
    by (auto simp del: upt_Suc)
  finally show ?thesis .
qed

lemma all_slots_counted:
  assumes "length ls = 8" "\<forall>i<8. ls ! i \<noteq> None"
  shows "length (filter (\<lambda>p. p \<noteq> None) ls) = 8"
proof -
  have "\<forall>p \<in> set ls. p \<noteq> None"
    using assms by (auto simp: in_set_conv_nth)
  then have "filter (\<lambda>p. p \<noteq> None) ls = ls"
    by (simp add: filter_id_conv)
  with assms show ?thesis by simp
qed

lemma raise_flags_bits: "raise_flags x m AND m = m"
  by (simp add: raise_flags_def word_ao_absorbs)

lemma eight_slots: "(\<forall>i<8. P (i::nat)) \<longleftrightarrow> P 0 \<and> P 1 \<and> P 2 \<and> P 3 \<and> P 4 \<and> P 5 \<and> P 6 \<and> P 7"
proof -
  have "{..<8::nat} = {0, 1, 2, 3, 4, 5, 6, 7}"
    by auto
  then have "(\<forall>i<8. P i) \<longleftrightarrow> (\<forall>i \<in> {0, 1, 2, 3, 4, 5, 6, 7}. P i)"
    by (metis lessThan_iff)
  then show ?thesis by simp
qed

text \<open>
  Claim C2. When all eight light slots of an environment are occupied,
  \<^verbatim>\<open>C3D_LightInit\<close> on a further light returns a negative value and the store it returns
  is the store it was given: the environment (its lights array, its flags and every other
  field) and the light are unchanged, and the environment still counts eight lights.
\<close>

theorem C3D_LightInit_full:
  assumes "envs s env = Some e" and "wf_env e" and "\<forall>i<8. env_lights e ! i \<noteq> None"
    and "lights s light = Some l"
  shows "\<exists>r. C3D_LightInit light env s = Some (r, s) \<and> r < 0 \<and> light_count e = 8"
proof -
  have "free_slot (env_lights e) = None"
    using assms(3) by (simp add: free_slot_None)
  then have "C3D_LightInit light env s = Some (- 1, s)"
    using assms(1,4) by (simp add: C3D_LightInit_def)
  moreover have "light_count e = 8"
    unfolding light_count_def
    using assms(2,3) by (intro all_slots_counted) (simp_all add: wf_env_def)
  ultimately show ?thesis by simp
qed

theorem C3D_LightInit_full_witness:
  "C3D_LightInit 9 100 store_full = Some (- 1, store_full)
   \<and> (\<exists>r. C3D_LightInit 9 100 store_full = Some (r, store_full) \<and> r < 0)
   \<and> map_option light_count (envs store_full 100) = Some 8"
proof -
  define e where "e = env_with [Some 1, Some 2, Some 3, Some 4, Some 5, Some 6, Some 7, Some 8]"
  have h: "envs store_full 100 = Some e" "wf_env e" "\<forall>i<8. env_lights e ! i \<noteq> None"
    "lights store_full 9 = Some light0"
    by (simp_all add: store_full_def e_def env_with_def wf_env_def eight_slots)
  from C3D_LightInit_full [OF h] obtain r
    where r: "C3D_LightInit 9 100 store_full = Some (r, store_full)" "r < 0" "light_count e = 8"
    by blast
  have "free_slot (env_lights e) = None"
    by (simp add: e_def env_with_def free_slot_def upt_conv_Cons)
  then have "C3D_LightInit 9 100 store_full = Some (- 1, store_full)"
    using h by (simp add: C3D_LightInit_def)
  with r h(1) show ?thesis by simp
qed

text \<open>
  Claim C3. When an environment has a free light slot, \<^verbatim>\<open>C3D_LightInit\<close> succeeds and
  returns the lowest free slot index, which lies in 0 to 7. In the store it returns, the
  light has that index as its id and the environment as its parent, the light's
  \<^verbatim>\<open>C3DF_Light_Enabled\<close> and \<^verbatim>\<open>C3DF_Light_Dirty\<close> bits are set, the environment's slot
  holds the light, and the environment's per-light bit of that slot is raised.
\<close>

theorem C3D_LightInit_free:
  assumes "envs s env = Some e" and "wf_env e" and "\<exists>i<8. env_lights e ! i = None"
    and "lights s light = Some l"
  shows "\<exists>i s' e' l'. C3D_LightInit light env s = Some (int i, s')
     \<and> i < 8 \<and> env_lights e ! i = None \<and> (\<forall>j<i. env_lights e ! j \<noteq> None)
     \<and> lights s' light = Some l' \<and> envs s' env = Some e'
     \<and> unat (light_id l') = i
     \<and> light_parent l' = Some env
     \<and> light_flags l' AND C3DF_Light_Enabled = C3DF_Light_Enabled
     \<and> light_flags l' AND C3DF_Light_Dirty = C3DF_Light_Dirty
     \<and> C3DF_Light_Enabled \<noteq> 0 \<and> C3DF_Light_Dirty \<noteq> 0
     \<and> env_lights e' = (env_lights e)[i := Some light]
     \<and> env_lights e' ! i = Some light
     \<and> env_flags e' = env_flags e OR C3DF_LightEnv_IsCP i
     \<and> env_flags e' AND C3DF_LightEnv_IsCP i = C3DF_LightEnv_IsCP i
     \<and> C3DF_LightEnv_IsCP i \<noteq> 0"
proof -
  from assms(3) have "free_slot (env_lights e) \<noteq> None"
    by (simp add: free_slot_None)
  then obtain i where i: "free_slot (env_lights e) = Some i"
    by blast
  then have i8: "i < 8" and free: "env_lights e ! i = None"
    and least: "\<forall>j<i. env_lights e ! j \<noteq> None"
    by (simp_all add: free_slot_Some)
  define e' where "e' = e\<lparr>env_lights := (env_lights e)[i := Some light],
      env_flags := raise_flags (env_flags e) (C3DF_LightEnv_IsCP i)\<rparr>"
  define l' where "l' = l\<lparr>light_id := of_nat i, light_parent := Some env,
      light_flags := raise_flags (light_flags l) (C3DF_Light_Enabled OR C3DF_Light_Dirty)\<rparr>"
  define s' where "s' = s\<lparr>envs := (envs s)(env \<mapsto> e'), lights := (lights s)(light \<mapsto> l')\<rparr>"
  have run: "C3D_LightInit light env s = Some (int i, s')"
    using assms(1,4) i by (simp add: C3D_LightInit_def s'_def e'_def l'_def)
  have st: "lights s' light = Some l'" "envs s' env = Some e'"
    by (simp_all add: s'_def)
  have id: "unat (light_id l') = i"
    using i8 by (simp add: l'_def unat_of_nat)
  have par: "light_parent l' = Some env"
    by (simp add: l'_def)
  have en: "light_flags l' AND C3DF_Light_Enabled = C3DF_Light_Enabled"
    by (rule bit_eqI) (auto simp: l'_def raise_flags_def bit_and_iff bit_or_iff)
  have di: "light_flags l' AND C3DF_Light_Dirty = C3DF_Light_Dirty"
    by (rule bit_eqI) (auto simp: l'_def raise_flags_def bit_and_iff bit_or_iff)
  have nz: "C3DF_Light_Enabled \<noteq> 0" "C3DF_Light_Dirty \<noteq> 0"
    by (simp_all add: C3DF_Light_Enabled_def C3DF_Light_Dirty_def BIT_def)
  have ls: "env_lights e' = (env_lights e)[i := Some light]"
    by (simp add: e'_def)
  have lsi: "env_lights e' ! i = Some light"
    using i8 assms(2) by (simp add: e'_def wf_env_def)
  have fl: "env_flags e' = env_flags e OR C3DF_LightEnv_IsCP i"
    by (simp add: e'_def raise_flags_def)
  have flb: "env_flags e' AND C3DF_LightEnv_IsCP i = C3DF_LightEnv_IsCP i"
    by (simp add: e'_def raise_flags_bits)
  have "bit (C3DF_LightEnv_IsCP i) (18 + i)"
    using i8 by (simp add: C3DF_LightEnv_IsCP_def bit_BIT)
  then have cpnz: "C3DF_LightEnv_IsCP i \<noteq> 0"
    by auto
  from run i8 free least st id par en di nz ls lsi fl flb cpnz show ?thesis
    by blast
qed

theorem C3D_LightInit_free_witness:
  "C3D_LightInit 2 100 store_free = Some (1, store_free_added)
   \<and> map_option light_id (lights store_free_added 2) = Some 1
   \<and> map_option light_parent (lights store_free_added 2) = Some (Some 100)
   \<and> map_option (\<lambda>l. light_flags l AND C3DF_Light_Enabled) (lights store_free_added 2)
       = Some C3DF_Light_Enabled
   \<and> map_option (\<lambda>l. light_flags l AND C3DF_Light_Dirty) (lights store_free_added 2)
       = Some C3DF_Light_Dirty
   \<and> map_option (\<lambda>e. env_lights e ! 1) (envs store_free_added 100) = Some (Some 2)
   \<and> map_option (\<lambda>e. env_flags e AND C3DF_LightEnv_IsCP 1) (envs store_free_added 100)
       = Some (C3DF_LightEnv_IsCP 1)"
proof -
  define e where "e = env_with [Some 1, None, Some 3, None, None, None, None, None]"
  have "env_lights e ! 1 = None"
    by (simp add: e_def env_with_def)
  then have ex: "\<exists>i<8. env_lights e ! i = None"
    by (intro exI [of _ 1]) simp
  have h: "envs store_free 100 = Some e" "wf_env e" "lights store_free 2 = Some light0"
    by (simp_all add: store_free_def e_def env_with_def wf_env_def)
  from C3D_LightInit_free [OF h(1,2) ex h(3)] obtain i s' e' l'
    where run: "C3D_LightInit 2 100 store_free = Some (int i, s')"
      and st: "lights s' 2 = Some l'" "envs s' 100 = Some e'"
      and l': "unat (light_id l') = i" "light_parent l' = Some 100"
        "light_flags l' AND C3DF_Light_Enabled = C3DF_Light_Enabled"
        "light_flags l' AND C3DF_Light_Dirty = C3DF_Light_Dirty"
      and e': "env_lights e' ! i = Some 2"
        "env_flags e' AND C3DF_LightEnv_IsCP i = C3DF_LightEnv_IsCP i"
    by blast
  have "free_slot (env_lights e) = Some 1"
    by (simp add: e_def env_with_def free_slot_def upt_conv_Cons)
  then have ev: "C3D_LightInit 2 100 store_free = Some (1, store_free_added)"
    using h by (simp add: C3D_LightInit_def store_free_def store_free_added_def e_def
        env_with_def light0_def raise_flags_def C3DF_LightEnv_IsCP_def C3DF_Light_Enabled_def
        C3DF_Light_Dirty_def BIT_def)
  with run have eq: "i = 1" "s' = store_free_added"
    by simp_all
  from l'(1) eq have "light_id l' = 1"
    by (metis unat_1 word_unat_eq_iff)
  with ev st l' e' eq show ?thesis
    by simp
qed

section \<open>The composite colour setter\<close>

lemma call3_Some:
  "call3 f1 f2 f3 light r g b s = Some s' \<longleftrightarrow>
     (\<exists>s1 s2. f1 light r g b s = Some s1 \<and> f2 light r g b s1 = Some s2
        \<and> f3 light r g b s2 = Some s')"
  by (auto simp: call3_def bind_eq_Some_conv)

lemma C3D_LightColor_call3: "C3D_LightColor f1 f2 f3 = call3 f1 f2 f3"
  by (auto simp: C3D_LightColor_def call3_def fun_eq_iff split: option.splits)

lemma sets_fieldD:
  "sets_field fld put f \<Longrightarrow> f light r g b s = Some s' \<Longrightarrow>
     \<exists>l'. lights s' light = Some l' \<and> fld l' = put r g b"
  unfolding sets_field_def by blast

lemma keeps_fieldD:
  "keeps_field fld f \<Longrightarrow> f light r g b s = Some s' \<Longrightarrow> lights s light = Some l \<Longrightarrow>
     \<exists>l'. lights s' light = Some l' \<and> fld l' = fld l"
  unfolding keeps_field_def by blast

text \<open>
  The setter of a field may be the first, the second or the third of the three calls; the
  calls after it keep the field.
\<close>

lemma field_set_by_first:
  assumes "sets_field fld put f1" "keeps_field fld f2" "keeps_field fld f3"
    and "call3 f1 f2 f3 light r g b s = Some s'"
  shows "\<exists>l'. lights s' light = Some l' \<and> fld l' = put r g b"
proof -
  from assms(4) obtain s1 s2 where 1: "f1 light r g b s = Some s1"
    and 2: "f2 light r g b s1 = Some s2" and 3: "f3 light r g b s2 = Some s'"
    by (auto simp: call3_Some)
  from sets_fieldD [OF assms(1) 1] obtain l1
    where "lights s1 light = Some l1" "fld l1 = put r g b"
    by blast
  with keeps_fieldD [OF assms(2) 2] obtain l2
    where "lights s2 light = Some l2" "fld l2 = put r g b"
    by force
  with keeps_fieldD [OF assms(3) 3] show ?thesis
    by force
qed

lemma field_set_by_second:
  assumes "sets_field fld put f2" "keeps_field fld f3"
    and "call3 f1 f2 f3 light r g b s = Some s'"
  shows "\<exists>l'. lights s' light = Some l' \<and> fld l' = put r g b"
proof -
  from assms(3) obtain s1 s2 where 2: "f2 light r g b s1 = Some s2"
    and 3: "f3 light r g b s2 = Some s'"
    by (auto simp: call3_Some)
  from sets_fieldD [OF assms(1) 2] obtain l2
    where "lights s2 light = Some l2" "fld l2 = put r g b"
    by blast
  with keeps_fieldD [OF assms(2) 3] show ?thesis
    by force
qed

lemma field_set_by_third:
  assumes "sets_field fld put f3"
    and "call3 f1 f2 f3 light r g b s = Some s'"
  shows "\<exists>l'. lights s' light = Some l' \<and> fld l' = put r g b"
proof -
  from assms(2) obtain s2 where 3: "f3 light r g b s2 = Some s'"
    by (auto simp: call3_Some)
  from sets_fieldD [OF assms(1) 3] show ?thesis .
qed

lemma stored_colors_all:
  assumes "\<exists>l'. lights s' light = Some l' \<and> light_diffuse l' = cd"
    and "\<exists>l'. lights s' light = Some l' \<and> light_specular0 l' = c0"
    and "\<exists>l'. lights s' light = Some l' \<and> light_specular1 l' = c1"
  shows "stored_colors s' light = Some (cd, c0, c1)"
  using assms by (auto simp: stored_colors_def)

lemma light_color_setter_Some:
  "light_color_setter upd light r g b s = Some s' \<longleftrightarrow>
     (\<exists>l p e. lights s light = Some l \<and> light_parent l = Some p \<and> envs s p = Some e
        \<and> s' = s\<lparr>envs := (envs s)(p \<mapsto>
                    e\<lparr>env_flags := raise_flags (env_flags e) C3DF_LightEnv_LCDirty\<rparr>),
                  lights := (lights s)(light \<mapsto>
                    (upd (rgb r g b) l)\<lparr>light_flags :=
                       raise_flags (light_flags l) C3DF_Light_MatDirty\<rparr>)\<rparr>)"
  by (auto simp: light_color_setter_def split: option.splits)

lemma modelled_setters_contract:
  "setter_contract rgb rgb rgb C3D_LightDiffuse C3D_LightSpecular0 C3D_LightSpecular1"
  unfolding setter_contract_def sets_field_def keeps_field_def
    C3D_LightDiffuse_def C3D_LightSpecular0_def C3D_LightSpecular1_def
  by (auto simp: light_color_setter_Some)

text \<open>
  Claim C8. \<^verbatim>\<open>C3D_LightColor(light, r, g, b)\<close> is the three calls
  \<^verbatim>\<open>C3D_LightDiffuse\<close>, \<^verbatim>\<open>C3D_LightSpecular0\<close>, \<^verbatim>\<open>C3D_LightSpecular1\<close> with the same
  arguments and so leaves the store exactly as they do. For setters that store a value
  determined by \<open>(r, g, b)\<close> in their own field and keep the two other fields, each of the
  six orders of the three calls leaves the same stored diffuse, specular0 and specular1
  values.
\<close>

theorem C3D_LightColor_sequence:
  assumes "setter_contract putD putS0 putS1 D S0 S1"
  shows "C3D_LightColor D S0 S1 light r g b s = call3 D S0 S1 light r g b s
    \<and> leaves_colors (putD r g b, putS0 r g b, putS1 r g b) D S0 S1 light r g b s
    \<and> leaves_colors (putD r g b, putS0 r g b, putS1 r g b) D S1 S0 light r g b s
    \<and> leaves_colors (putD r g b, putS0 r g b, putS1 r g b) S0 D S1 light r g b s
    \<and> leaves_colors (putD r g b, putS0 r g b, putS1 r g b) S0 S1 D light r g b s
    \<and> leaves_colors (putD r g b, putS0 r g b, putS1 r g b) S1 D S0 light r g b s
    \<and> leaves_colors (putD r g b, putS0 r g b, putS1 r g b) S1 S0 D light r g b s"
proof -
  from assms have d: "sets_field light_diffuse putD D" "keeps_field light_specular0 D"
      "keeps_field light_specular1 D"
    and s0: "sets_field light_specular0 putS0 S0" "keeps_field light_diffuse S0"
      "keeps_field light_specular1 S0"
    and s1: "sets_field light_specular1 putS1 S1" "keeps_field light_diffuse S1"
      "keeps_field light_specular0 S1"
    by (simp_all add: setter_contract_def)
  note order = field_set_by_first [rotated -1] field_set_by_second [rotated -1]
    field_set_by_third [rotated -1]
  let ?c = "(putD r g b, putS0 r g b, putS1 r g b)"
  have 1: "leaves_colors ?c D S0 S1 light r g b s"
    unfolding leaves_colors_def
    by (intro allI impI stored_colors_all) (erule order; intro d s0 s1)+
  have 2: "leaves_colors ?c D S1 S0 light r g b s"
    unfolding leaves_colors_def
    by (intro allI impI stored_colors_all) (erule order; intro d s0 s1)+
  have 3: "leaves_colors ?c S0 D S1 light r g b s"
    unfolding leaves_colors_def
    by (intro allI impI stored_colors_all) (erule order; intro d s0 s1)+
  have 4: "leaves_colors ?c S0 S1 D light r g b s"
    unfolding leaves_colors_def
    by (intro allI impI stored_colors_all) (erule order; intro d s0 s1)+
  have 5: "leaves_colors ?c S1 D S0 light r g b s"
    unfolding leaves_colors_def
    by (intro allI impI stored_colors_all) (erule order; intro d s0 s1)+
  have 6: "leaves_colors ?c S1 S0 D light r g b s"
    unfolding leaves_colors_def
    by (intro allI impI stored_colors_all) (erule order; intro d s0 s1)+
  from 1 2 3 4 5 6 show ?thesis
    by (simp add: C3D_LightColor_call3)
qed

text \<open>
  An instance, with the setters as the spec describes them: the composite setter and the
  calls in the order specular1, diffuse, specular0 end in the same store.
\<close>

theorem C3D_LightColor_sequence_witness:
  "C3D_LightColor C3D_LightDiffuse C3D_LightSpecular0 C3D_LightSpecular1 1 1 (1 / 2) 0 store_lit
     = Some store_lit_colored
   \<and> call3 C3D_LightDiffuse C3D_LightSpecular0 C3D_LightSpecular1 1 1 (1 / 2) 0 store_lit
     = Some store_lit_colored
   \<and> call3 C3D_LightSpecular1 C3D_LightDiffuse C3D_LightSpecular0 1 1 (1 / 2) 0 store_lit
     = Some store_lit_colored
   \<and> stored_colors store_lit_colored 1 = Some ((1, 1 / 2, 0), (1, 1 / 2, 0), (1, 1 / 2, 0))"
proof -
  note t = C3D_LightColor_sequence [OF modelled_setters_contract, of 1 1 "1 / 2" 0 store_lit]
  note defs = call3_def C3D_LightDiffuse_def C3D_LightSpecular0_def C3D_LightSpecular1_def
    light_color_setter_def rgb_def store_lit_def store_lit_colored_def light0_def env_with_def
    raise_flags_def C3DF_LightEnv_LCDirty_def C3DF_Light_MatDirty_def BIT_def
  have a: "call3 C3D_LightDiffuse C3D_LightSpecular0 C3D_LightSpecular1 1 1 (1 / 2) 0 store_lit
      = Some store_lit_colored"
    by (simp add: defs)
  have b: "call3 C3D_LightSpecular1 C3D_LightDiffuse C3D_LightSpecular0 1 1 (1 / 2) 0 store_lit
      = Some store_lit_colored"
    by (simp add: defs)
  from t a have "C3D_LightColor C3D_LightDiffuse C3D_LightSpecular0 C3D_LightSpecular1
      1 1 (1 / 2) 0 store_lit = Some store_lit_colored"
    by simp
  moreover from t a
  have "stored_colors store_lit_colored 1 = Some ((1, 1 / 2, 0), (1, 1 / 2, 0), (1, 1 / 2, 0))"
    by (simp add: leaves_colors_def rgb_def)
  ultimately show ?thesis
    using a b by simp
qed

end
